theory Spec2Isabelle
  imports Complex_Main
begin

section \<open>Data model\<close>

text \<open>
  The row types of \<^verbatim>\<open>src/types/database.ts\<close> and of the schema migration
  (\<^verbatim>\<open>CREATE TABLE public.tasks\<close>, \<^verbatim>\<open>task_volunteers\<close>, \<^verbatim>\<open>profiles\<close>).
  UUIDs are strings compared by equality only. JavaScript numbers are modelled as
  mathematical numbers: \<open>int\<close> for the INTEGER columns, \<open>real\<close> for distances, scores
  and hours (NaN and the infinities are outside the model). Timestamps are abstract
  instants (\<open>nat\<close>). Columns that no modelled operation reads or writes (description,
  ai_improved_title, location_name, estimated_effort, updated_at, the joined creator
  profile, names, avatars, badges, row ids of the join table, joined_at) are left out.
\<close>

type_synonym uuid = string

datatype TaskUrgency = low | medium | high

datatype TaskStatus = open_status | in_progress | completed | cancelled

datatype TimeNeeded = t15min | t30min | t1hour | t2hours | half_day

record Profile =
  user_id :: uuid
  p_location_lat :: "real option"
  p_location_lng :: "real option"
  skills :: "string list"
  tasks_completed :: int
  total_volunteer_hours :: real

record Task =
  tid :: uuid
  creator_id :: uuid
  title :: string
  location_lat :: real
  location_lng :: real
  time_needed :: TimeNeeded
  urgency :: TaskUrgency
  status :: TaskStatus
  skills_needed :: "string list"
  max_volunteers :: int
  current_volunteers :: int
  created_at :: nat
  completed_at :: "nat option"
  distance :: "real option"

record TaskVolunteer =
  task_id :: uuid
  volunteer_id :: uuid
  v_status :: string


section \<open>Match scorer\<close>

text \<open>
  \<^verbatim>\<open>bestMatchId\<close> of \<^verbatim>\<open>TaskFeed.tsx\<close>. The inner loop over
  \<^verbatim>\<open>task.skills_needed\<close> adds 2 for every entry that the set of user skills has;
  the outer loop keeps the first task whose score is strictly above the best so far.
\<close>

fun skill_loop :: "string list \<Rightarrow> string list \<Rightarrow> real \<Rightarrow> real" where
  "skill_loop userSkills [] score = score"
| "skill_loop userSkills (skill # rest) score =
     skill_loop userSkills rest (if skill \<in> set userSkills then score + 2 else score)"

definition task_score :: "string list \<Rightarrow> Task \<Rightarrow> real" where
  "task_score userSkills task =
     (let score = skill_loop userSkills (skills_needed task) 0;
          score = (case distance task of
                     Some d \<Rightarrow> if d < 5 then score + (2 - d / 5) else score
                   | None \<Rightarrow> score);
          score = (if urgency task = high then score + 1 else score)
      in score)"

fun best_loop :: "string list \<Rightarrow> Task list \<Rightarrow> Task option \<Rightarrow> real \<Rightarrow> Task option \<times> real" where
  "best_loop userSkills [] bestTask bestScore = (bestTask, bestScore)"
| "best_loop userSkills (task # rest) bestTask bestScore =
     (let score = task_score userSkills task
      in if score > bestScore then best_loop userSkills rest (Some task) score
         else best_loop userSkills rest bestTask bestScore)"

definition bestMatchId :: "Profile option \<Rightarrow> Task list \<Rightarrow> uuid option" where
  "bestMatchId profile filteredTasks =
     (case profile of
        None \<Rightarrow> None
      | Some p \<Rightarrow>
          if length (skills p) = 0 \<or> length filteredTasks = 0 then None
          else (case best_loop (skills p) filteredTasks None 0 of
                  (bestTask, bestScore) \<Rightarrow>
                    if bestScore > 0 then map_option tid bestTask else None))"

text \<open>
  \<^verbatim>\<open>bestMatchId\<close> of the map view (\<^verbatim>\<open>TaskMapView\<close>), written out again from its
  own source text.
\<close>

fun map_skill_loop :: "string list \<Rightarrow> string list \<Rightarrow> real \<Rightarrow> real" where
  "map_skill_loop userSkills [] score = score"
| "map_skill_loop userSkills (skill # rest) score =
     map_skill_loop userSkills rest (if skill \<in> set userSkills then score + 2 else score)"

definition map_task_score :: "string list \<Rightarrow> Task \<Rightarrow> real" where
  "map_task_score userSkills task =
     (let score = map_skill_loop userSkills (skills_needed task) 0;
          score = (case distance task of
                     Some d \<Rightarrow> if d < 5 then score + (2 - d / 5) else score
                   | None \<Rightarrow> score);
          score = (if urgency task = high then score + 1 else score)
      in score)"

fun map_best_loop :: "string list \<Rightarrow> Task list \<Rightarrow> Task option \<Rightarrow> real \<Rightarrow> Task option \<times> real" where
  "map_best_loop userSkills [] bestTask bestScore = (bestTask, bestScore)"
| "map_best_loop userSkills (task # rest) bestTask bestScore =
     (let score = map_task_score userSkills task
      in if score > bestScore then map_best_loop userSkills rest (Some task) score
         else map_best_loop userSkills rest bestTask bestScore)"

definition map_bestMatchId :: "Profile option \<Rightarrow> Task list \<Rightarrow> uuid option" where
  "map_bestMatchId profile filteredTasks =
     (case profile of
        None \<Rightarrow> None
      | Some p \<Rightarrow>
          if length (skills p) = 0 \<or> length filteredTasks = 0 then None
          else (case map_best_loop (skills p) filteredTasks None 0 of
                  (bestTask, bestScore) \<Rightarrow>
                    if bestScore > 0 then map_option tid bestTask else None))"

text \<open>The proximity bonus, as the term the score adds.\<close>

definition proximity_bonus :: "real option \<Rightarrow> real" where
  "proximity_bonus dopt = (case dopt of Some d \<Rightarrow> if d < 5 then 2 - d / 5 else 0 | None \<Rightarrow> 0)"

definition urgency_bonus :: "TaskUrgency \<Rightarrow> real" where
  "urgency_bonus u = (if u = high then 1 else 0)"

definition skill_hits :: "string list \<Rightarrow> Task \<Rightarrow> nat" where
  "skill_hits userSkills task = length (filter (\<lambda>s. s \<in> set userSkills) (skills_needed task))"


section \<open>Distance calculator\<close>

text \<open>
  \<^verbatim>\<open>Math.atan2\<close> is a library primitive; this is its value on real arguments
  (the angle of the point \<open>(x, y)\<close>, in \<open>(-\<pi>, \<pi>]\<close>).
\<close>

definition atan2 :: "real \<Rightarrow> real \<Rightarrow> real" where
  "atan2 y x =
     (if 0 < x then arctan (y / x)
      else if x < 0 then (if 0 \<le> y then arctan (y / x) + pi else arctan (y / x) - pi)
      else if 0 < y then pi / 2
      else if y < 0 then - (pi / 2)
      else 0)"

text \<open>
  \<^verbatim>\<open>calculateDistance\<close> of \<^verbatim>\<open>useTasks\<close>: the haversine formula, in miles, read
  on real numbers. The source computes it on IEEE doubles, where rounding can push \<open>a\<close>
  above 1 at antipodal points, the square root of \<open>1 - a\<close> is then NaN and so is the
  result; that arithmetic is not modelled, and no property of the value of the distance
  is derived from this definition. It only supplies the distance that \<^verbatim>\<open>fetchTasks\<close>
  joins to a task.
\<close>

definition calculateDistance :: "real \<Rightarrow> real \<Rightarrow> real \<Rightarrow> real \<Rightarrow> real" where
  "calculateDistance lat1 lng1 lat2 lng2 =
     (let R = 3959;
          dLat = (lat2 - lat1) * pi / 180;
          dLng = (lng2 - lng1) * pi / 180;
          a = sin (dLat / 2) * sin (dLat / 2) +
              cos (lat1 * pi / 180) * cos (lat2 * pi / 180) *
              sin (dLng / 2) * sin (dLng / 2);
          c = 2 * atan2 (sqrt a) (sqrt (1 - a))
      in R * c)"


section \<open>The hosted tables\<close>

text \<open>
  The three tables the hooks read and write, as lists of rows in insertion order. A
  row of \<open>tasks_tbl\<close> carries \<open>distance = None\<close>: the distance is joined on the client.
  The client calls are modelled by what they do to the tables: an insert appends a row
  unless a key constraint of the schema rejects it (\<^verbatim>\<open>PRIMARY KEY\<close> of tasks,
  \<^verbatim>\<open>UNIQUE (task_id, volunteer_id)\<close> and the foreign key to tasks of task_volunteers);
  an update or delete with \<^verbatim>\<open>.eq\<close> filters touches exactly the matching rows and
  reports no error when none matches. Transport failures and the row-level policies of
  the platform are outside the model: every write the code issues is taken as admitted.
\<close>

record database =
  tasks_tbl :: "Task list"
  task_volunteers_tbl :: "TaskVolunteer list"
  profiles_tbl :: "Profile list"

datatype error = Not_authenticated | No_task_ID | Unique_violation | Foreign_key_violation

definition insert_task :: "Task \<Rightarrow> database \<Rightarrow> error + database" where
  "insert_task row db =
     (if \<exists>t \<in> set (tasks_tbl db). tid t = tid row then Inl Unique_violation
      else Inr (db\<lparr>tasks_tbl := tasks_tbl db @ [row]\<rparr>))"

definition insert_task_volunteer :: "TaskVolunteer \<Rightarrow> database \<Rightarrow> error + database" where
  "insert_task_volunteer row db =
     (if \<exists>r \<in> set (task_volunteers_tbl db).
           task_id r = task_id row \<and> volunteer_id r = volunteer_id row
      then Inl Unique_violation
      else if \<not> (\<exists>t \<in> set (tasks_tbl db). tid t = task_id row) then Inl Foreign_key_violation
      else Inr (db\<lparr>task_volunteers_tbl := task_volunteers_tbl db @ [row]\<rparr>))"

definition update_tasks :: "uuid \<Rightarrow> (Task \<Rightarrow> Task) \<Rightarrow> database \<Rightarrow> database" where
  "update_tasks taskId f db =
     db\<lparr>tasks_tbl := map (\<lambda>t. if tid t = taskId then f t else t) (tasks_tbl db)\<rparr>"

definition update_task_volunteers ::
  "uuid \<Rightarrow> uuid \<Rightarrow> (TaskVolunteer \<Rightarrow> TaskVolunteer) \<Rightarrow> database \<Rightarrow> database" where
  "update_task_volunteers taskId volunteerId f db =
     db\<lparr>task_volunteers_tbl :=
          map (\<lambda>r. if task_id r = taskId \<and> volunteer_id r = volunteerId then f r else r)
            (task_volunteers_tbl db)\<rparr>"

definition delete_task_volunteers :: "uuid \<Rightarrow> uuid \<Rightarrow> database \<Rightarrow> database" where
  "delete_task_volunteers taskId volunteerId db =
     db\<lparr>task_volunteers_tbl :=
          filter (\<lambda>r. \<not> (task_id r = taskId \<and> volunteer_id r = volunteerId))
            (task_volunteers_tbl db)\<rparr>"

definition update_profiles :: "uuid \<Rightarrow> (Profile \<Rightarrow> Profile) \<Rightarrow> database \<Rightarrow> database" where
  "update_profiles userId f db =
     db\<lparr>profiles_tbl := map (\<lambda>p. if user_id p = userId then f p else p) (profiles_tbl db)\<rparr>"

text \<open>\<^verbatim>\<open>.maybeSingle()\<close>: the row when exactly one matches, no data otherwise.\<close>

definition maybeSingle :: "'a list \<Rightarrow> 'a option" where
  "maybeSingle rows = (case rows of [r] \<Rightarrow> Some r | _ \<Rightarrow> None)"

text \<open>\<^verbatim>\<open>x || d\<close> on numbers: \<open>d\<close> when \<open>x\<close> is 0 (or absent), \<open>x\<close> otherwise.\<close>

definition js_or :: "'a::zero \<Rightarrow> 'a \<Rightarrow> 'a" where
  "js_or x d = (if x = 0 then d else x)"

text \<open>The unique constraint of task_volunteers, as a predicate on the tables.\<close>

definition volunteers_unique :: "database \<Rightarrow> bool" where
  "volunteers_unique db = distinct (map (\<lambda>r. (task_id r, volunteer_id r)) (task_volunteers_tbl db))"


section \<open>The task hook\<close>

text \<open>
  \<^verbatim>\<open>useAuth\<close> supplies the signed-in user and the profile; \<^verbatim>\<open>useTasks\<close> keeps the
  loaded task list in its state. Every function of the hook takes the hook state its
  closure reads and returns the error it reports, the tables after its writes and the
  hook state after the refetch it starts. \<^verbatim>\<open>fetchTasks\<close> loads the open and in_progress
  tasks, newest first, and joins the distance from the profile's location when the
  profile has one (a latitude or longitude of 0 counts as absent, as the truth test of
  the source does). The id the platform generates for a new task and the time of a call
  are parameters.
\<close>

record Auth =
  user :: "uuid option"
  profile :: "Profile option"

record TasksHook =
  tasks :: "Task list"

text \<open>The state of a freshly mounted hook: \<^verbatim>\<open>useState([])\<close>.\<close>

definition tasks_hook0 :: TasksHook where
  "tasks_hook0 = \<lparr>tasks = []\<rparr>"

record CreateTaskData =
  d_title :: string
  d_location_lat :: real
  d_location_lng :: real
  d_time_needed :: TimeNeeded
  d_urgency :: TaskUrgency
  d_skills_needed :: "string list option"
  d_max_volunteers :: "int option"

definition task_distance :: "Profile option \<Rightarrow> Task \<Rightarrow> real option" where
  "task_distance prof task =
     (case prof of
        None \<Rightarrow> None
      | Some p \<Rightarrow>
          (case (p_location_lat p, p_location_lng p) of
             (Some lat, Some lng) \<Rightarrow>
               if lat \<noteq> 0 \<and> lng \<noteq> 0
               then Some (calculateDistance lat lng (location_lat task) (location_lng task))
               else None
           | _ \<Rightarrow> None))"

definition fetchTasks :: "Auth \<Rightarrow> database \<Rightarrow> TasksHook \<Rightarrow> TasksHook" where
  "fetchTasks auth db h =
     (let tasksData =
            rev (sort_key created_at
                   (filter (\<lambda>t. status t = open_status \<or> status t = in_progress) (tasks_tbl db)));
          tasksWithData = map (\<lambda>task. task\<lparr>distance := task_distance (profile auth) task\<rparr>) tasksData
      in h\<lparr>tasks := tasksWithData\<rparr>)"

definition createTask ::
  "Auth \<Rightarrow> TasksHook \<Rightarrow> uuid \<Rightarrow> nat \<Rightarrow> CreateTaskData \<Rightarrow> database
     \<Rightarrow> error option \<times> database \<times> TasksHook" where
  "createTask auth h new_id now taskData db =
     (case user auth of
        None \<Rightarrow> (Some Not_authenticated, db, h)
      | Some uid \<Rightarrow>
          (case insert_task
                  \<lparr>tid = new_id, creator_id = uid, title = d_title taskData,
                   location_lat = d_location_lat taskData, location_lng = d_location_lng taskData,
                   time_needed = d_time_needed taskData, urgency = d_urgency taskData,
                   status = open_status,
                   skills_needed = (case d_skills_needed taskData of None \<Rightarrow> [] | Some ss \<Rightarrow> ss),
                   max_volunteers = (case d_max_volunteers taskData of None \<Rightarrow> 1 | Some m \<Rightarrow> m),
                   current_volunteers = 0, created_at = now, completed_at = None,
                   distance = None\<rparr> db of
             Inl e \<Rightarrow> (Some e, db, h)
           | Inr db' \<Rightarrow> (None, db', fetchTasks auth db' h)))"

definition acceptTask ::
  "Auth \<Rightarrow> TasksHook \<Rightarrow> uuid \<Rightarrow> database \<Rightarrow> error option \<times> database \<times> TasksHook" where
  "acceptTask auth h taskId db =
     (case user auth of
        None \<Rightarrow> (Some Not_authenticated, db, h)
      | Some uid \<Rightarrow>
          (case insert_task_volunteer
                  \<lparr>task_id = taskId, volunteer_id = uid, v_status = ''active''\<rparr> db of
             Inl joinError \<Rightarrow> (Some joinError, db, h)
           | Inr db1 \<Rightarrow>
               (let db2 =
                      (case find (\<lambda>t. tid t = taskId) (tasks h) of
                         Some task \<Rightarrow>
                           (let newCount = js_or (current_volunteers task) 0 + 1;
                                newStatus = (if newCount \<ge> max_volunteers task then in_progress
                                             else status task)
                            in update_tasks taskId
                                 (\<lambda>t. t\<lparr>current_volunteers := newCount, status := newStatus\<rparr>) db1)
                       | None \<Rightarrow> db1)
                in (None, db2, fetchTasks auth db2 h))))"

text \<open>
  \<^verbatim>\<open>completeTask\<close>, the copy of the hook that also updates the volunteers' statistics
  (the one with the hours table). The loop over the accepted volunteers reads each
  profile and writes the two counters back.
\<close>

definition hoursMap :: "TimeNeeded \<Rightarrow> real" where
  "hoursMap tn =
     (case tn of t15min \<Rightarrow> 0.25 | t30min \<Rightarrow> 0.5 | t1hour \<Rightarrow> 1 | t2hours \<Rightarrow> 2 | half_day \<Rightarrow> 4)"

fun stats_loop :: "real \<Rightarrow> TaskVolunteer list \<Rightarrow> database \<Rightarrow> database" where
  "stats_loop hours [] db = db"
| "stats_loop hours (volunteer # rest) db =
     (case maybeSingle (filter (\<lambda>p. user_id p = volunteer_id volunteer) (profiles_tbl db)) of
        Some prof \<Rightarrow>
          stats_loop hours rest
            (update_profiles (volunteer_id volunteer)
               (\<lambda>p. p\<lparr>tasks_completed := js_or (tasks_completed prof) 0 + 1,
                      total_volunteer_hours := js_or (total_volunteer_hours prof) 0 + hours\<rparr>)
               db)
      | None \<Rightarrow> stats_loop hours rest db)"

definition completeTask ::
  "Auth \<Rightarrow> TasksHook \<Rightarrow> uuid \<Rightarrow> nat \<Rightarrow> database \<Rightarrow> error option \<times> database \<times> TasksHook" where
  "completeTask auth h taskId now db =
     (let task = find (\<lambda>t. tid t = taskId) (tasks h);
          db1 = update_tasks taskId (\<lambda>t. t\<lparr>status := completed, completed_at := Some now\<rparr>) db;
          volunteers = filter (\<lambda>r. task_id r = taskId \<and> v_status r = ''accepted'')
                         (task_volunteers_tbl db1);
          db2 = (if length volunteers > 0
                 then (let hours = (case task of
                                      Some t \<Rightarrow> js_or (hoursMap (time_needed t)) 0.5
                                    | None \<Rightarrow> 0.5)
                       in stats_loop hours volunteers db1)
                 else db1)
      in (None, db2, fetchTasks auth db2 h))"

text \<open>
  The other copy of \<^verbatim>\<open>completeTask\<close> (\<^verbatim>\<open>src/hooks/useTasks.tsx\<close>): the status update
  and the refetch only.
\<close>

definition completeTask_plain ::
  "Auth \<Rightarrow> TasksHook \<Rightarrow> uuid \<Rightarrow> nat \<Rightarrow> database \<Rightarrow> error option \<times> database \<times> TasksHook" where
  "completeTask_plain auth h taskId now db =
     (let db1 = update_tasks taskId (\<lambda>t. t\<lparr>status := completed, completed_at := Some now\<rparr>) db
      in (None, db1, fetchTasks auth db1 h))"


section \<open>The volunteer hook\<close>

text \<open>
  \<^verbatim>\<open>useTaskVolunteers(taskId)\<close>: the hook is mounted for one task (or none) and keeps
  the loaded volunteer rows of that task and the caller's own status. The profiles
  joined to the rows for display are left out.
\<close>

record VolunteersHook =
  volunteers :: "TaskVolunteer list"
  userVolunteerStatus :: "string option"

text \<open>The state of a freshly mounted hook: no rows, no status.\<close>

definition volunteers_hook0 :: VolunteersHook where
  "volunteers_hook0 = \<lparr>volunteers = [], userVolunteerStatus = None\<rparr>"

definition fetchVolunteers ::
  "Auth \<Rightarrow> uuid option \<Rightarrow> database \<Rightarrow> VolunteersHook \<Rightarrow> VolunteersHook" where
  "fetchVolunteers auth hookTaskId db h =
     (case hookTaskId of
        None \<Rightarrow> h
      | Some t \<Rightarrow>
          (let rows = filter (\<lambda>v. task_id v = t) (task_volunteers_tbl db);
               h1 = h\<lparr>volunteers := rows\<rparr>
           in case user auth of
                None \<Rightarrow> h1
              | Some uid \<Rightarrow>
                  h1\<lparr>userVolunteerStatus :=
                        (case find (\<lambda>v. volunteer_id v = uid) rows of
                           None \<Rightarrow> None
                         | Some userVolunteer \<Rightarrow>
                             if v_status userVolunteer = [] then None
                             else Some (v_status userVolunteer))\<rparr>))"

definition offerToHelp ::
  "Auth \<Rightarrow> uuid option \<Rightarrow> VolunteersHook \<Rightarrow> uuid \<Rightarrow> database
     \<Rightarrow> error option \<times> database \<times> VolunteersHook" where
  "offerToHelp auth hookTaskId h taskId db =
     (case user auth of
        None \<Rightarrow> (Some Not_authenticated, db, h)
      | Some uid \<Rightarrow>
          (case insert_task_volunteer
                  \<lparr>task_id = taskId, volunteer_id = uid, v_status = ''pending''\<rparr> db of
             Inl e \<Rightarrow> (Some e, db, h)
           | Inr db' \<Rightarrow>
               (None, db',
                fetchVolunteers auth hookTaskId db' (h\<lparr>userVolunteerStatus := Some ''pending''\<rparr>))))"

definition acceptVolunteer ::
  "Auth \<Rightarrow> uuid option \<Rightarrow> VolunteersHook \<Rightarrow> uuid \<Rightarrow> database
     \<Rightarrow> error option \<times> database \<times> VolunteersHook" where
  "acceptVolunteer auth hookTaskId h volunteerId db =
     (case hookTaskId of
        None \<Rightarrow> (Some No_task_ID, db, h)
      | Some taskId \<Rightarrow>
          (let db1 = update_task_volunteers taskId volunteerId
                       (\<lambda>r. r\<lparr>v_status := ''accepted''\<rparr>) db;
               acceptedCount =
                 int (length (filter (\<lambda>v. v_status v = ''accepted'') (volunteers h))) + 1;
               db2 = update_tasks taskId
                       (\<lambda>t. t\<lparr>current_volunteers := acceptedCount, status := in_progress\<rparr>) db1
           in (None, db2, fetchVolunteers auth hookTaskId db2 h)))"

definition rejectVolunteer ::
  "Auth \<Rightarrow> uuid option \<Rightarrow> VolunteersHook \<Rightarrow> uuid \<Rightarrow> database
     \<Rightarrow> error option \<times> database \<times> VolunteersHook" where
  "rejectVolunteer auth hookTaskId h volunteerId db =
     (case hookTaskId of
        None \<Rightarrow> (Some No_task_ID, db, h)
      | Some taskId \<Rightarrow>
          (let db1 = update_task_volunteers taskId volunteerId
                       (\<lambda>r. r\<lparr>v_status := ''rejected''\<rparr>) db
           in (None, db1, fetchVolunteers auth hookTaskId db1 h)))"

definition withdrawOffer ::
  "Auth \<Rightarrow> uuid option \<Rightarrow> VolunteersHook \<Rightarrow> database
     \<Rightarrow> error option \<times> database \<times> VolunteersHook" where
  "withdrawOffer auth hookTaskId h db =
     (case (user auth, hookTaskId) of
        (Some uid, Some taskId) \<Rightarrow>
          (let db1 = delete_task_volunteers taskId uid db
           in (None, db1, fetchVolunteers auth hookTaskId db1 (h\<lparr>userVolunteerStatus := None\<rparr>)))
      | _ \<Rightarrow> (Some Not_authenticated, db, h))"


section \<open>Sequences of operations\<close>

text \<open>
  Concrete runs of the operations. In a run each event is issued from a session whose
  hook has just loaded its list from the current tables, so the list the operation
  reads is the one \<^verbatim>\<open>fetchTasks\<close> or \<^verbatim>\<open>fetchVolunteers\<close> returns on the tables it
  is applied to, and the volunteer hook is mounted for the task the event names. This
  is the most favourable case for the code: the hook functions themselves take any
  hook state, also a stale one, and \<open>step\<close> is used to evaluate given scenarios only,
  not to state what holds of every call.
\<close>

datatype operation =
    CreateTask Auth uuid nat CreateTaskData
  | AcceptTask Auth uuid
  | OfferToHelp Auth uuid
  | AcceptVolunteer Auth uuid uuid
  | RejectVolunteer Auth uuid uuid
  | WithdrawOffer Auth uuid
  | CompleteTask Auth uuid nat

fun step :: "operation \<Rightarrow> database \<Rightarrow> database" where
  "step (CreateTask auth new_id now taskData) db =
     fst (snd (createTask auth (fetchTasks auth db tasks_hook0) new_id now taskData db))"
| "step (AcceptTask auth taskId) db =
     fst (snd (acceptTask auth (fetchTasks auth db tasks_hook0) taskId db))"
| "step (OfferToHelp auth taskId) db =
     fst (snd (offerToHelp auth (Some taskId)
                 (fetchVolunteers auth (Some taskId) db volunteers_hook0) taskId db))"
| "step (AcceptVolunteer auth taskId volunteerId) db =
     fst (snd (acceptVolunteer auth (Some taskId)
                 (fetchVolunteers auth (Some taskId) db volunteers_hook0) volunteerId db))"
| "step (RejectVolunteer auth taskId volunteerId) db =
     fst (snd (rejectVolunteer auth (Some taskId)
                 (fetchVolunteers auth (Some taskId) db volunteers_hook0) volunteerId db))"
| "step (WithdrawOffer auth taskId) db =
     fst (snd (withdrawOffer auth (Some taskId)
                 (fetchVolunteers auth (Some taskId) db volunteers_hook0) db))"
| "step (CompleteTask auth taskId now) db =
     fst (snd (completeTask auth (fetchTasks auth db tasks_hook0) taskId now db))"

fun run :: "operation list \<Rightarrow> database \<Rightarrow> database" where
  "run [] db = db"
| "run (ev # evs) db = run evs (step ev db)"

definition empty_db :: database where
  "empty_db = \<lparr>tasks_tbl = [], task_volunteers_tbl = [], profiles_tbl = []\<rparr>"


text \<open>Sample rows used to evaluate the definitions at concrete inputs.\<close>

definition sample_profile :: Profile where
  "sample_profile =
     \<lparr>user_id = ''u1'', p_location_lat = None, p_location_lng = None, skills = [],
      tasks_completed = 0, total_volunteer_hours = 0\<rparr>"

definition sample_task :: Task where
  "sample_task =
     \<lparr>tid = ''t1'', creator_id = ''u0'', title = ''Move a sofa'', location_lat = 0,
      location_lng = 0, time_needed = t1hour, urgency = low, status = open_status,
      skills_needed = [], max_volunteers = 1, current_volunteers = 0, created_at = 0,
      completed_at = None, distance = None\<rparr>"


definition auth_of :: "uuid \<Rightarrow> Auth" where
  "auth_of uid = \<lparr>user = Some uid, profile = None\<rparr>"

definition sample_db :: database where
  "sample_db =
     \<lparr>tasks_tbl = [sample_task], task_volunteers_tbl = [],
      profiles_tbl = [sample_profile, sample_profile\<lparr>user_id := ''u2''\<rparr>]\<rparr>"

definition pending_row :: "uuid \<Rightarrow> TaskVolunteer" where
  "pending_row uid = \<lparr>task_id = ''t1'', volunteer_id = uid, v_status = ''pending''\<rparr>"

definition accepted_row :: "uuid \<Rightarrow> TaskVolunteer" where
  "accepted_row uid = \<lparr>task_id = ''t1'', volunteer_id = uid, v_status = ''accepted''\<rparr>"


definition two_accepted_db :: "TaskStatus \<Rightarrow> database" where
  "two_accepted_db st =
     \<lparr>tasks_tbl = [sample_task\<lparr>status := st, max_volunteers := 2, current_volunteers := 2\<rparr>],
      task_volunteers_tbl = [accepted_row ''u1'', accepted_row ''u2''],
      profiles_tbl = [sample_profile, sample_profile\<lparr>user_id := ''u2''\<rparr>]\<rparr>"


definition sample_data :: CreateTaskData where
  "sample_data =
     \<lparr>d_title = ''Move a sofa'', d_location_lat = 0, d_location_lng = 0,
      d_time_needed = t1hour, d_urgency = low, d_skills_needed = None,
      d_max_volunteers = Some 1\<rparr>"


definition over_max_scenario :: "operation list" where
  "over_max_scenario =
     [CreateTask (auth_of ''u0'') ''t1'' 0 sample_data,
      OfferToHelp (auth_of ''u1'') ''t1'',
      OfferToHelp (auth_of ''u2'') ''t1'',
      AcceptVolunteer (auth_of ''u0'') ''t1'' ''u1'',
      AcceptVolunteer (auth_of ''u0'') ''t1'' ''u2'']"

definition reopen_scenario :: "operation list" where
  "reopen_scenario =
     [CreateTask (auth_of ''u0'') ''t1'' 0 sample_data,
      OfferToHelp (auth_of ''u1'') ''t1'',
      CompleteTask (auth_of ''u0'') ''t1'' 5]"


section \<open>Properties of the match scorer\<close>

lemma skill_loop_closed:
  "skill_loop us needed acc = acc + 2 * real (length (filter (\<lambda>s. s \<in> set us) needed))"
  by (induction needed arbitrary: acc) simp_all

lemma task_score_closed:
  "task_score us t = 2 * real (skill_hits us t) + proximity_bonus (distance t) + urgency_bonus (urgency t)"
  by (simp add: task_score_def skill_loop_closed skill_hits_def proximity_bonus_def
      urgency_bonus_def Let_def split: option.splits)

lemma skill_hits_card:
  "distinct (skills_needed t) \<Longrightarrow>
     skill_hits us t = card (set us \<inter> set (skills_needed t))"
proof -
  assume d: "distinct (skills_needed t)"
  have "set (filter (\<lambda>s. s \<in> set us) (skills_needed t)) = set us \<inter> set (skills_needed t)"
    by auto
  moreover have "distinct (filter (\<lambda>s. s \<in> set us) (skills_needed t))"
    using d by simp
  ultimately show ?thesis
    unfolding skill_hits_def by (metis distinct_card)
qed

lemma task_score_nonneg: "0 \<le> task_score us t"
  by (simp add: task_score_closed proximity_bonus_def urgency_bonus_def split: option.splits)

lemma best_loop_none_above:
  "\<forall>t \<in> set ts. task_score us t \<le> bs \<Longrightarrow> best_loop us ts bt bs = (bt, bs)"
  by (induction ts) (simp_all add: Let_def)

lemma best_loop_first_max:
  "k < length ts \<Longrightarrow> bs < task_score us (ts ! k) \<Longrightarrow>
   \<forall>j < length ts. task_score us (ts ! j) \<le> task_score us (ts ! k) \<Longrightarrow>
   \<forall>j < k. task_score us (ts ! j) < task_score us (ts ! k) \<Longrightarrow>
   best_loop us ts bt bs = (Some (ts ! k), task_score us (ts ! k))"
proof (induction ts arbitrary: k bt bs)
  case Nil
  then show ?case by simp
next
  case (Cons t rest)
  show ?case
  proof (cases k)
    case 0
    have "\<forall>x \<in> set rest. task_score us x \<le> task_score us t"
    proof
      fix x assume "x \<in> set rest"
      then obtain i where i: "i < length rest" "rest ! i = x"
        by (auto simp: in_set_conv_nth)
      from Cons.prems(3) i(1) 0 have "task_score us ((t # rest) ! Suc i) \<le> task_score us t"
        by auto
      with i(2) show "task_score us x \<le> task_score us t" by simp
    qed
    then have "best_loop us rest (Some t) (task_score us t) = (Some t, task_score us t)"
      by (rule best_loop_none_above)
    with Cons.prems(2) 0 show ?thesis by (simp add: Let_def)
  next
    case (Suc k')
    from Cons.prems(4) Suc have lt: "task_score us t < task_score us (rest ! k')"
      by auto
    have k': "k' < length rest" using Cons.prems(1) Suc by simp
    have mx: "\<forall>j < length rest. task_score us (rest ! j) \<le> task_score us (rest ! k')"
      using Cons.prems(3) Suc by auto
    have fs: "\<forall>j < k'. task_score us (rest ! j) < task_score us (rest ! k')"
      using Cons.prems(4) Suc by auto
    show ?thesis
    proof (cases "bs < task_score us t")
      case True
      have "best_loop us rest (Some t) (task_score us t) = (Some (rest ! k'), task_score us (rest ! k'))"
        by (rule Cons.IH [OF k' lt mx fs])
      with True Suc show ?thesis by (simp add: Let_def)
    next
      case False
      have b: "bs < task_score us (rest ! k')" using Cons.prems(2) Suc by simp
      have "best_loop us rest bt bs = (Some (rest ! k'), task_score us (rest ! k'))"
        by (rule Cons.IH [OF k' b mx fs])
      with False Suc show ?thesis by (simp add: Let_def)
    qed
  qed
qed

lemma map_skill_loop_eq: "map_skill_loop us needed acc = skill_loop us needed acc"
  by (induction needed arbitrary: acc) simp_all

lemma map_task_score_eq: "map_task_score us t = task_score us t"
  by (simp add: map_task_score_def task_score_def map_skill_loop_eq)

lemma map_best_loop_eq: "map_best_loop us ts bt bs = best_loop us ts bt bs"
  by (induction ts arbitrary: bt bs) (simp_all add: map_task_score_eq Let_def)

text \<open>
  C1 (as amended). The user's skill list is non-empty (the early return of
  \<^verbatim>\<open>bestMatchId\<close> answers null for an empty list whatever the tasks score). Then the
  score of a task is 2 for each entry of skills_needed that the user has (the number of
  shared skills when the entries are distinct), plus \<open>2 - d/5\<close> when the distance \<open>d\<close> is
  defined and below 5, plus 1 when the urgency is high; the result is the id of the first
  task, in input order, that attains the highest score when that score is positive, and
  null when no task scores above 0. Without a profile, or with an empty skill list, the
  result is null whatever the tasks score.
\<close>

theorem bestMatchId_spec:
  assumes "skills p \<noteq> []"
  shows "(\<forall>t. task_score (skills p) t =
              2 * real (skill_hits (skills p) t)
              + (case distance t of Some d \<Rightarrow> if d < 5 then 2 - d / 5 else 0 | None \<Rightarrow> 0)
              + (if urgency t = high then 1 else 0))
       \<and> (\<forall>t. distinct (skills_needed t) \<longrightarrow>
              skill_hits (skills p) t = card (set (skills p) \<inter> set (skills_needed t)))
       \<and> (\<forall>k < length ts.
              0 < task_score (skills p) (ts ! k)
              \<and> (\<forall>j < length ts. task_score (skills p) (ts ! j) \<le> task_score (skills p) (ts ! k))
              \<and> (\<forall>j < k. task_score (skills p) (ts ! j) < task_score (skills p) (ts ! k))
              \<longrightarrow> bestMatchId (Some p) ts = Some (tid (ts ! k)))
       \<and> ((\<forall>t \<in> set ts. task_score (skills p) t \<le> 0) \<longrightarrow> bestMatchId (Some p) ts = None)
       \<and> (\<forall>q. skills q = [] \<longrightarrow> bestMatchId (Some q) ts = None)
       \<and> bestMatchId None ts = None"
proof (intro conjI allI impI)
  fix t :: Task
  show "task_score (skills p) t =
          2 * real (skill_hits (skills p) t)
          + (case distance t of Some d \<Rightarrow> if d < 5 then 2 - d / 5 else 0 | None \<Rightarrow> 0)
          + (if urgency t = high then 1 else 0)"
    by (simp add: task_score_closed proximity_bonus_def urgency_bonus_def)
next
  fix t :: Task
  assume "distinct (skills_needed t)"
  then show "skill_hits (skills p) t = card (set (skills p) \<inter> set (skills_needed t))"
    by (rule skill_hits_card)
next
  fix k
  assume k: "k < length ts"
    and h: "0 < task_score (skills p) (ts ! k)
            \<and> (\<forall>j < length ts. task_score (skills p) (ts ! j) \<le> task_score (skills p) (ts ! k))
            \<and> (\<forall>j < k. task_score (skills p) (ts ! j) < task_score (skills p) (ts ! k))"
  from k have ne: "ts \<noteq> []" by auto
  have "best_loop (skills p) ts None 0 = (Some (ts ! k), task_score (skills p) (ts ! k))"
    using k h by (intro best_loop_first_max) auto
  with assms ne h show "bestMatchId (Some p) ts = Some (tid (ts ! k))"
    by (simp add: bestMatchId_def)
next
  assume "\<forall>t \<in> set ts. task_score (skills p) t \<le> 0"
  then have "best_loop (skills p) ts None 0 = (None, 0)"
    by (rule best_loop_none_above)
  then show "bestMatchId (Some p) ts = None"
    by (simp add: bestMatchId_def)
next
  fix q :: Profile
  assume "skills q = []"
  then show "bestMatchId (Some q) ts = None"
    by (simp add: bestMatchId_def)
next
  show "bestMatchId None ts = None"
    by (simp add: bestMatchId_def)
qed

theorem bestMatchId_spec_witness:
  "skills (sample_profile\<lparr>skills := [''Driving'']\<rparr>) \<noteq> []
   \<and> task_score [''Driving''] sample_task = 0
   \<and> task_score [''Driving'']
         (sample_task\<lparr>tid := ''t2'', skills_needed := [''Driving''], urgency := high\<rparr>) = 3
   \<and> bestMatchId (Some (sample_profile\<lparr>skills := [''Driving'']\<rparr>))
         [sample_task,
          sample_task\<lparr>tid := ''t2'', skills_needed := [''Driving''], urgency := high\<rparr>]
       = Some ''t2''"
proof -
  let ?p = "sample_profile\<lparr>skills := [''Driving'']\<rparr>"
  let ?t2 = "sample_task\<lparr>tid := ''t2'', skills_needed := [''Driving''], urgency := high\<rparr>"
  let ?ts = "[sample_task, ?t2]"
  have ne: "skills ?p \<noteq> []" by simp
  have s1: "task_score [''Driving''] sample_task = 0"
    by (simp add: task_score_def sample_task_def)
  have s2: "task_score [''Driving''] ?t2 = 3"
    by (simp add: task_score_def sample_task_def)
  note third = bestMatchId_spec [OF ne, of ?ts, THEN conjunct2, THEN conjunct2, THEN conjunct1]
  have le: "\<forall>j < length ?ts. task_score (skills ?p) (?ts ! j) \<le> task_score (skills ?p) (?ts ! 1)"
    using s1 s2 by (simp add: less_Suc_eq)
  have lt: "\<forall>j < 1. task_score (skills ?p) (?ts ! j) < task_score (skills ?p) (?ts ! 1)"
    using s1 s2 by simp
  have pos: "0 < task_score (skills ?p) (?ts ! 1)"
    using s2 by simp
  have "bestMatchId (Some ?p) ?ts = Some (tid (?ts ! 1))"
    using third [rule_format, of 1] pos le lt by simp
  then have "bestMatchId (Some ?p) ?ts = Some ''t2''"
    by (simp add: sample_task_def)
  with ne s1 s2 show ?thesis by simp
qed

text \<open>
  C1 as stated fails for a user whose skill list is empty: a high-urgency task scores
  1, which is above 0, and yet the result is null.
\<close>

theorem bestMatchId_empty_skills_counterexample:
  "task_score (skills sample_profile) (sample_task\<lparr>urgency := high\<rparr>) = 1
   \<and> bestMatchId (Some sample_profile) [sample_task\<lparr>urgency := high\<rparr>] = None"
  by (simp add: task_score_def bestMatchId_def sample_profile_def sample_task_def)

text \<open>
  C5 (as amended). For a task at distance \<open>d\<close> with \<open>0 \<le> d < 5\<close> the score exceeds the
  score of the same task without a distance by \<open>2 - d/5\<close>; this bonus falls linearly from
  2 at \<open>d = 0\<close> and stays strictly above 1 (it does not approach 0). For \<open>d \<ge> 5\<close> the
  score equals the score without a distance: the bonus is exactly 0, as it is when the
  distance is undefined.
\<close>

theorem proximity_bonus_spec:
  "(distance t = Some d \<and> 0 \<le> d \<and> d < 5 \<longrightarrow>
      task_score us t - task_score us (t\<lparr>distance := None\<rparr>) = 2 - d / 5
      \<and> 1 < task_score us t - task_score us (t\<lparr>distance := None\<rparr>)
      \<and> task_score us t - task_score us (t\<lparr>distance := None\<rparr>) \<le> 2)
   \<and> (distance t = Some d \<and> 5 \<le> d \<longrightarrow>
      task_score us t - task_score us (t\<lparr>distance := None\<rparr>) = 0)
   \<and> (distance t = None \<longrightarrow>
      task_score us t = 2 * real (skill_hits us t) + (if urgency t = high then 1 else 0))"
  by (simp add: task_score_closed proximity_bonus_def urgency_bonus_def skill_hits_def)

theorem proximity_bonus_spec_witness:
  "task_score [] (sample_task\<lparr>distance := Some 4\<rparr>) - task_score [] sample_task = 6 / 5
   \<and> task_score [] (sample_task\<lparr>distance := Some 5\<rparr>) - task_score [] sample_task = 0
   \<and> task_score [] sample_task = 0"
proof -
  have n: "sample_task\<lparr>distance := None\<rparr> = sample_task"
    by (simp add: sample_task_def)
  have a: "task_score [] (sample_task\<lparr>distance := Some 4\<rparr>) - task_score [] sample_task = 6 / 5"
    using proximity_bonus_spec [of "sample_task\<lparr>distance := Some 4\<rparr>" 4 "[]"] n by simp
  have b: "task_score [] (sample_task\<lparr>distance := Some 5\<rparr>) - task_score [] sample_task = 0"
    using proximity_bonus_spec [of "sample_task\<lparr>distance := Some 5\<rparr>" 5 "[]"] n by simp
  have c: "task_score [] sample_task = 0"
    using proximity_bonus_spec [of sample_task 0 "[]"]
    by (simp add: sample_task_def skill_hits_def)
  from a b c show ?thesis by simp
qed

text \<open>
  C5 as stated fails just below 5 miles: at 4.99 miles the bonus is 1.002, not a value
  near 0.
\<close>

theorem proximity_bonus_counterexample:
  "task_score [] (sample_task\<lparr>distance := Some (499 / 100)\<rparr>)
     - task_score [] (sample_task\<lparr>distance := None\<rparr>) = 501 / 500"
  by (simp add: task_score_def sample_task_def)

text \<open>
  C9. The best-match computation of the task feed and the one of the map view return
  the same result for every profile and every list of tasks they iterate over.
\<close>

theorem bestMatchId_feed_map_equal:
  "map_bestMatchId prof filteredTasks = bestMatchId prof filteredTasks"
  unfolding map_bestMatchId_def bestMatchId_def map_best_loop_eq by (rule refl)


section \<open>Properties of the volunteer hook\<close>

lemma find_filter_snoc:
  "\<forall>r \<in> set rows. \<not> (Q r \<and> P r) \<Longrightarrow> Q x \<Longrightarrow> P x \<Longrightarrow>
     find P (filter Q (rows @ [x])) = Some x"
  by (induction rows) auto

text \<open>
  C7. For an authenticated caller without a row on an existing task, \<^verbatim>\<open>offerToHelp\<close>
  reports no error, appends one row with status pending and leaves the caller's status
  in the hook at pending; when the caller already has a row on the task the call reports
  the violation of the unique constraint and changes neither the tables nor the hook.
\<close>

theorem offerToHelp_spec:
  assumes "user auth = Some uid"
  shows "((\<forall>r \<in> set (task_volunteers_tbl db). \<not> (task_id r = taskId \<and> volunteer_id r = uid))
          \<and> (\<exists>t \<in> set (tasks_tbl db). tid t = taskId) \<longrightarrow>
            (\<exists>h'. offerToHelp auth hookTaskId h taskId db =
                    (None,
                     db\<lparr>task_volunteers_tbl := task_volunteers_tbl db @
                          [\<lparr>task_id = taskId, volunteer_id = uid, v_status = ''pending''\<rparr>]\<rparr>,
                     h')
                  \<and> (hookTaskId = None \<or> hookTaskId = Some taskId \<longrightarrow>
                       userVolunteerStatus h' = Some ''pending'')))
       \<and> ((\<exists>r \<in> set (task_volunteers_tbl db). task_id r = taskId \<and> volunteer_id r = uid) \<longrightarrow>
            offerToHelp auth hookTaskId h taskId db = (Some Unique_violation, db, h))"
proof (intro conjI impI)
  assume a: "(\<forall>r \<in> set (task_volunteers_tbl db). \<not> (task_id r = taskId \<and> volunteer_id r = uid))
          \<and> (\<exists>t \<in> set (tasks_tbl db). tid t = taskId)"
  let ?new = "\<lparr>task_id = taskId, volunteer_id = uid, v_status = ''pending''\<rparr>"
  let ?db' = "db\<lparr>task_volunteers_tbl := task_volunteers_tbl db @ [?new]\<rparr>"
  have ins: "insert_task_volunteer ?new db = Inr ?db'"
    using a by (auto simp: insert_task_volunteer_def)
  let ?h' = "fetchVolunteers auth hookTaskId ?db' (h\<lparr>userVolunteerStatus := Some ''pending''\<rparr>)"
  have r: "offerToHelp auth hookTaskId h taskId db = (None, ?db', ?h')"
    using assms ins by (simp add: offerToHelp_def)
  have f: "find (\<lambda>v. volunteer_id v = uid)
             (filter (\<lambda>v. task_id v = taskId) (task_volunteers_tbl db @ [?new])) = Some ?new"
    using a by (intro find_filter_snoc) auto
  have s: "hookTaskId = None \<or> hookTaskId = Some taskId \<longrightarrow> userVolunteerStatus ?h' = Some ''pending''"
    using assms f by (auto simp: fetchVolunteers_def Let_def)
  from r s show "\<exists>h'. offerToHelp auth hookTaskId h taskId db = (None, ?db', h')
                  \<and> (hookTaskId = None \<or> hookTaskId = Some taskId \<longrightarrow>
                       userVolunteerStatus h' = Some ''pending'')"
    by blast
next
  assume "\<exists>r \<in> set (task_volunteers_tbl db). task_id r = taskId \<and> volunteer_id r = uid"
  then show "offerToHelp auth hookTaskId h taskId db = (Some Unique_violation, db, h)"
    using assms by (auto simp: offerToHelp_def insert_task_volunteer_def)
qed

theorem offerToHelp_spec_witness:
  "user (auth_of ''u1'') = Some ''u1''
   \<and> fst (offerToHelp (auth_of ''u1'') (Some ''t1'') volunteers_hook0 ''t1'' sample_db) = None
   \<and> task_volunteers_tbl
        (fst (snd (offerToHelp (auth_of ''u1'') (Some ''t1'') volunteers_hook0 ''t1'' sample_db)))
       = [pending_row ''u1'']
   \<and> userVolunteerStatus
        (snd (snd (offerToHelp (auth_of ''u1'') (Some ''t1'') volunteers_hook0 ''t1'' sample_db)))
       = Some ''pending''
   \<and> offerToHelp (auth_of ''u1'') (Some ''t1'')
        \<lparr>volunteers = [pending_row ''u1''], userVolunteerStatus = Some ''pending''\<rparr> ''t1''
        (sample_db\<lparr>task_volunteers_tbl := [pending_row ''u1'']\<rparr>)
       = (Some Unique_violation, sample_db\<lparr>task_volunteers_tbl := [pending_row ''u1'']\<rparr>,
          \<lparr>volunteers = [pending_row ''u1''], userVolunteerStatus = Some ''pending''\<rparr>)"
proof -
  have u: "user (auth_of ''u1'') = Some ''u1''"
    by (simp add: auth_of_def)
  have pre1: "(\<forall>r \<in> set (task_volunteers_tbl sample_db). \<not> (task_id r = ''t1'' \<and> volunteer_id r = ''u1''))
          \<and> (\<exists>t \<in> set (tasks_tbl sample_db). tid t = ''t1'')"
    by (simp add: sample_db_def sample_task_def)
  from offerToHelp_spec [OF u, of sample_db "''t1''" "Some ''t1''" volunteers_hook0,
      THEN conjunct1, THEN mp, OF pre1]
  obtain h' where
    r: "offerToHelp (auth_of ''u1'') (Some ''t1'') volunteers_hook0 ''t1'' sample_db =
          (None,
           sample_db\<lparr>task_volunteers_tbl := task_volunteers_tbl sample_db @
              [\<lparr>task_id = ''t1'', volunteer_id = ''u1'', v_status = ''pending''\<rparr>]\<rparr>, h')"
    and st: "userVolunteerStatus h' = Some ''pending''"
    by auto
  have a: "fst (offerToHelp (auth_of ''u1'') (Some ''t1'') volunteers_hook0 ''t1'' sample_db) = None"
    by (simp add: r)
  have b: "task_volunteers_tbl
        (fst (snd (offerToHelp (auth_of ''u1'') (Some ''t1'') volunteers_hook0 ''t1'' sample_db)))
       = [pending_row ''u1'']"
    unfolding r by (simp add: sample_db_def pending_row_def)
  have c: "userVolunteerStatus
        (snd (snd (offerToHelp (auth_of ''u1'') (Some ''t1'') volunteers_hook0 ''t1'' sample_db)))
       = Some ''pending''"
    by (simp add: r st)
  have pre2: "\<exists>r \<in> set (task_volunteers_tbl (sample_db\<lparr>task_volunteers_tbl := [pending_row ''u1'']\<rparr>)).
                task_id r = ''t1'' \<and> volunteer_id r = ''u1''"
    by (simp add: pending_row_def)
  note d = offerToHelp_spec [OF u, of "sample_db\<lparr>task_volunteers_tbl := [pending_row ''u1'']\<rparr>"
      "''t1''" "Some ''t1''" "\<lparr>volunteers = [pending_row ''u1''], userVolunteerStatus = Some ''pending''\<rparr>",
      THEN conjunct2, THEN mp, OF pre2]
  from u a b c d show ?thesis by blast
qed

text \<open>
  C10. A successful \<^verbatim>\<open>withdrawOffer\<close> deletes the caller's own row on the hook's task
  and nothing else: the tasks table (so every task's current_volunteers and status) and
  the profiles are as before, whatever the status of the deleted row was.
\<close>

theorem withdrawOffer_frame:
  assumes "withdrawOffer auth hookTaskId h db = (None, db', h')"
  shows "tasks_tbl db' = tasks_tbl db \<and> profiles_tbl db' = profiles_tbl db
         \<and> (\<exists>uid taskId. user auth = Some uid \<and> hookTaskId = Some taskId
              \<and> task_volunteers_tbl db' =
                  filter (\<lambda>r. \<not> (task_id r = taskId \<and> volunteer_id r = uid))
                    (task_volunteers_tbl db))"
  using assms
  by (auto simp: withdrawOffer_def delete_task_volunteers_def Let_def split: option.splits)

theorem withdrawOffer_frame_witness:
  "fst (withdrawOffer (auth_of ''u1'') (Some ''t1'') volunteers_hook0
          \<lparr>tasks_tbl = [sample_task\<lparr>status := in_progress, current_volunteers := 1\<rparr>],
           task_volunteers_tbl = [accepted_row ''u1'', pending_row ''u2''], profiles_tbl = []\<rparr>) = None
   \<and> tasks_tbl (fst (snd (withdrawOffer (auth_of ''u1'') (Some ''t1'') volunteers_hook0
          \<lparr>tasks_tbl = [sample_task\<lparr>status := in_progress, current_volunteers := 1\<rparr>],
           task_volunteers_tbl = [accepted_row ''u1'', pending_row ''u2''], profiles_tbl = []\<rparr>)))
       = [sample_task\<lparr>status := in_progress, current_volunteers := 1\<rparr>]
   \<and> task_volunteers_tbl (fst (snd (withdrawOffer (auth_of ''u1'') (Some ''t1'') volunteers_hook0
          \<lparr>tasks_tbl = [sample_task\<lparr>status := in_progress, current_volunteers := 1\<rparr>],
           task_volunteers_tbl = [accepted_row ''u1'', pending_row ''u2''], profiles_tbl = []\<rparr>)))
       = [pending_row ''u2'']"
proof -
  let ?db = "\<lparr>tasks_tbl = [sample_task\<lparr>status := in_progress, current_volunteers := 1\<rparr>],
           task_volunteers_tbl = [accepted_row ''u1'', pending_row ''u2''], profiles_tbl = []\<rparr>"
  let ?res = "withdrawOffer (auth_of ''u1'') (Some ''t1'') volunteers_hook0 ?db"
  have ok: "fst ?res = None"
    by (simp add: withdrawOffer_def auth_of_def Let_def)
  then have eq: "?res = (None, fst (snd ?res), snd (snd ?res))"
    by (metis prod.collapse)
  from withdrawOffer_frame [OF eq]
  obtain uid taskId where
    t: "tasks_tbl (fst (snd ?res)) = tasks_tbl ?db"
    and u: "user (auth_of ''u1'') = Some uid" "Some ''t1'' = Some taskId"
    and r: "task_volunteers_tbl (fst (snd ?res)) =
              filter (\<lambda>r. \<not> (task_id r = taskId \<and> volunteer_id r = uid)) (task_volunteers_tbl ?db)"
    by blast
  from u have "uid = ''u1''" "taskId = ''t1''"
    by (simp_all add: auth_of_def)
  with r have "task_volunteers_tbl (fst (snd ?res)) = [pending_row ''u2'']"
    by (simp add: accepted_row_def pending_row_def)
  with ok t show ?thesis by simp
qed

lemma accepted_count_same:
  "\<forall>r \<in> set rows. \<not> (task_id r = t \<and> volunteer_id r = v) \<Longrightarrow>
   length (filter (\<lambda>r. task_id r = t \<and> v_status r = ''accepted'')
             (map (\<lambda>r. if task_id r = t \<and> volunteer_id r = v then r\<lparr>v_status := ''accepted''\<rparr> else r) rows))
   = length (filter (\<lambda>x. v_status x = ''accepted'') (filter (\<lambda>x. task_id x = t) rows))"
  by (induction rows) auto

lemma accepted_count_after:
  "distinct (map (\<lambda>r. (task_id r, volunteer_id r)) rows) \<Longrightarrow>
   r0 \<in> set rows \<Longrightarrow> task_id r0 = t \<Longrightarrow> volunteer_id r0 = v \<Longrightarrow> v_status r0 \<noteq> ''accepted'' \<Longrightarrow>
   length (filter (\<lambda>r. task_id r = t \<and> v_status r = ''accepted'')
             (map (\<lambda>r. if task_id r = t \<and> volunteer_id r = v then r\<lparr>v_status := ''accepted''\<rparr> else r) rows))
   = length (filter (\<lambda>x. v_status x = ''accepted'') (filter (\<lambda>x. task_id x = t) rows)) + 1"
proof (induction rows)
  case Nil
  then show ?case by simp
next
  case (Cons x xs)
  show ?case
  proof (cases "task_id x = t \<and> volunteer_id x = v")
    case True
    have nokey: "\<forall>r \<in> set xs. \<not> (task_id r = t \<and> volunteer_id r = v)"
      using Cons.prems(1) True by (auto simp: image_iff)
    then have "r0 \<notin> set xs" using Cons.prems(3,4) by auto
    then have "x = r0" using Cons.prems(2) by simp
    then have "v_status x \<noteq> ''accepted''" using Cons.prems(5) by simp
    then show ?thesis
      using True accepted_count_same [OF nokey] by simp
  next
    case False
    then have "r0 \<in> set xs" using Cons.prems(2,3,4) by auto
    moreover have "distinct (map (\<lambda>r. (task_id r, volunteer_id r)) xs)"
      using Cons.prems(1) by simp
    ultimately have "length (filter (\<lambda>r. task_id r = t \<and> v_status r = ''accepted'')
             (map (\<lambda>r. if task_id r = t \<and> volunteer_id r = v then r\<lparr>v_status := ''accepted''\<rparr> else r) xs))
        = length (filter (\<lambda>x. v_status x = ''accepted'') (filter (\<lambda>x. task_id x = t) xs)) + 1"
      using Cons.IH Cons.prems(3,4,5) by blast
    then show ?thesis using False by auto
  qed
qed

text \<open>
  C3. A successful \<^verbatim>\<open>acceptVolunteer\<close> sets the status of the volunteer's row of the
  hook's task to accepted, writes on the task the count the hook recomputes (one more
  than the accepted rows of its loaded volunteer list) and sets the task's status to
  in_progress, with no test of max_volunteers or of the prior status. When the loaded
  list is the task's current rows and the volunteer's row was pending, the count written
  is the number of accepted rows of the task after the call.
\<close>

theorem acceptVolunteer_spec:
  assumes "acceptVolunteer auth hookTaskId h volunteerId db = (None, db', h')"
  shows "\<exists>taskId. hookTaskId = Some taskId
     \<and> task_volunteers_tbl db' =
         map (\<lambda>r. if task_id r = taskId \<and> volunteer_id r = volunteerId
                   then r\<lparr>v_status := ''accepted''\<rparr> else r) (task_volunteers_tbl db)
     \<and> tasks_tbl db' =
         map (\<lambda>t. if tid t = taskId
                   then t\<lparr>current_volunteers :=
                            int (length (filter (\<lambda>v. v_status v = ''accepted'') (volunteers h))) + 1,
                          status := in_progress\<rparr>
                   else t) (tasks_tbl db)
     \<and> profiles_tbl db' = profiles_tbl db
     \<and> (volunteers_unique db
          \<and> volunteers h = filter (\<lambda>r. task_id r = taskId) (task_volunteers_tbl db)
          \<and> (\<exists>r \<in> set (task_volunteers_tbl db).
                task_id r = taskId \<and> volunteer_id r = volunteerId \<and> v_status r = ''pending'')
        \<longrightarrow> int (length (filter (\<lambda>v. v_status v = ''accepted'') (volunteers h))) + 1
            = int (length (filter (\<lambda>r. task_id r = taskId \<and> v_status r = ''accepted'')
                             (task_volunteers_tbl db'))))"
proof -
  from assms obtain taskId where t: "hookTaskId = Some taskId"
    by (cases hookTaskId) (auto simp: acceptVolunteer_def)
  let ?upd = "\<lambda>r. if task_id r = taskId \<and> volunteer_id r = volunteerId
                   then r\<lparr>v_status := ''accepted''\<rparr> else r"
  have rows: "task_volunteers_tbl db' = map ?upd (task_volunteers_tbl db)"
    using assms t
    by (auto simp: acceptVolunteer_def update_task_volunteers_def update_tasks_def Let_def)
  have tsk: "tasks_tbl db' =
         map (\<lambda>t. if tid t = taskId
                   then t\<lparr>current_volunteers :=
                            int (length (filter (\<lambda>v. v_status v = ''accepted'') (volunteers h))) + 1,
                          status := in_progress\<rparr>
                   else t) (tasks_tbl db)"
    using assms t
    by (auto simp: acceptVolunteer_def update_task_volunteers_def update_tasks_def Let_def)
  have pfs: "profiles_tbl db' = profiles_tbl db"
    using assms t
    by (auto simp: acceptVolunteer_def update_task_volunteers_def update_tasks_def Let_def)
  have cnt: "int (length (filter (\<lambda>v. v_status v = ''accepted'') (volunteers h))) + 1
            = int (length (filter (\<lambda>r. task_id r = taskId \<and> v_status r = ''accepted'')
                             (task_volunteers_tbl db')))"
    if u: "volunteers_unique db"
      and f: "volunteers h = filter (\<lambda>r. task_id r = taskId) (task_volunteers_tbl db)"
      and e: "\<exists>r \<in> set (task_volunteers_tbl db).
                task_id r = taskId \<and> volunteer_id r = volunteerId \<and> v_status r = ''pending''"
  proof -
    from e obtain r0 where r0: "r0 \<in> set (task_volunteers_tbl db)" "task_id r0 = taskId"
      "volunteer_id r0 = volunteerId" "v_status r0 = ''pending''" by blast
    have "v_status r0 \<noteq> ''accepted''" using r0(4) by simp
    from accepted_count_after [OF u [unfolded volunteers_unique_def] r0(1) r0(2) r0(3) this]
    show ?thesis unfolding rows f by simp
  qed
  from t rows tsk pfs cnt show ?thesis by blast
qed

theorem acceptVolunteer_spec_witness:
  "acceptVolunteer (auth_of ''u0'') (Some ''t1'')
      \<lparr>volunteers = [pending_row ''u1''], userVolunteerStatus = None\<rparr> ''u1''
      \<lparr>tasks_tbl = [sample_task\<lparr>max_volunteers := 3\<rparr>],
       task_volunteers_tbl = [pending_row ''u1''], profiles_tbl = []\<rparr>
   = (None,
      \<lparr>tasks_tbl = [sample_task\<lparr>max_volunteers := 3, current_volunteers := 1,
                                 status := in_progress\<rparr>],
       task_volunteers_tbl = [accepted_row ''u1''], profiles_tbl = []\<rparr>,
      \<lparr>volunteers = [accepted_row ''u1''], userVolunteerStatus = None\<rparr>)
   \<and> int (length (filter (\<lambda>v. v_status v = ''accepted'') [pending_row ''u1''])) + 1
       = int (length (filter (\<lambda>r. task_id r = ''t1'' \<and> v_status r = ''accepted'')
                        [accepted_row ''u1'']))"
proof -
  let ?h = "\<lparr>volunteers = [pending_row ''u1''], userVolunteerStatus = None\<rparr>"
  let ?db = "\<lparr>tasks_tbl = [sample_task\<lparr>max_volunteers := 3\<rparr>],
       task_volunteers_tbl = [pending_row ''u1''], profiles_tbl = []\<rparr>"
  let ?db' = "\<lparr>tasks_tbl = [sample_task\<lparr>max_volunteers := 3, current_volunteers := 1,
                                 status := in_progress\<rparr>],
       task_volunteers_tbl = [accepted_row ''u1''], profiles_tbl = []\<rparr>"
  let ?h' = "\<lparr>volunteers = [accepted_row ''u1''], userVolunteerStatus = None\<rparr>"
  have run: "acceptVolunteer (auth_of ''u0'') (Some ''t1'') ?h ''u1'' ?db = (None, ?db', ?h')"
    by (simp add: acceptVolunteer_def update_task_volunteers_def update_tasks_def
        fetchVolunteers_def auth_of_def pending_row_def accepted_row_def sample_task_def Let_def)
  from acceptVolunteer_spec [OF run]
  obtain taskId where t: "Some ''t1'' = Some taskId"
    and imp: "volunteers_unique ?db
          \<and> volunteers ?h = filter (\<lambda>r. task_id r = taskId) (task_volunteers_tbl ?db)
          \<and> (\<exists>r \<in> set (task_volunteers_tbl ?db).
                task_id r = taskId \<and> volunteer_id r = ''u1'' \<and> v_status r = ''pending'')
        \<longrightarrow> int (length (filter (\<lambda>v. v_status v = ''accepted'') (volunteers ?h))) + 1
            = int (length (filter (\<lambda>r. task_id r = taskId \<and> v_status r = ''accepted'')
                             (task_volunteers_tbl ?db')))"
    by blast
  from t have tt: "taskId = ''t1''" by simp
  have pre: "volunteers_unique ?db
          \<and> volunteers ?h = filter (\<lambda>r. task_id r = ''t1'') (task_volunteers_tbl ?db)
          \<and> (\<exists>r \<in> set (task_volunteers_tbl ?db).
                task_id r = ''t1'' \<and> volunteer_id r = ''u1'' \<and> v_status r = ''pending'')"
    by (simp add: volunteers_unique_def pending_row_def)
  from imp [unfolded tt, THEN mp, OF pre] run show ?thesis by simp
qed


section \<open>Properties of the task hook\<close>

lemma js_or_zero: "js_or x 0 = x"
  by (simp add: js_or_def)

lemma filter_single_member: "filter P xs = [x] \<Longrightarrow> y \<in> set xs \<Longrightarrow> P y \<Longrightarrow> y = x"
proof -
  assume f: "filter P xs = [x]" and m: "y \<in> set xs" "P y"
  from m have "y \<in> set (filter P xs)" by simp
  then show "y = x" unfolding f by simp
qed

lemma update_profiles_own:
  assumes "filter (\<lambda>p. user_id p = a) (profiles_tbl db) = [p1]"
  shows "profiles_tbl (update_profiles a
            (\<lambda>p. p\<lparr>tasks_completed := tasks_completed p1 + 1,
                   total_volunteer_hours := total_volunteer_hours p1 + hours\<rparr>) db)
       = map (\<lambda>p. if user_id p = a
                   then p\<lparr>tasks_completed := tasks_completed p + 1,
                          total_volunteer_hours := total_volunteer_hours p + hours\<rparr>
                   else p) (profiles_tbl db)"
  unfolding update_profiles_def
  using filter_single_member [OF assms] by (auto intro!: map_cong)

lemma filter_other_user:
  "a \<noteq> b \<Longrightarrow>
   filter (\<lambda>p. user_id p = b)
     (map (\<lambda>p. if user_id p = a
                then p\<lparr>tasks_completed := f p, total_volunteer_hours := g p\<rparr> else p) ps)
   = filter (\<lambda>p. user_id p = b) ps"
  by (induction ps) auto

lemma stats_loop_two:
  assumes "a \<noteq> b" "volunteer_id r1 = a" "volunteer_id r2 = b"
    and "filter (\<lambda>p. user_id p = a) (profiles_tbl db) = [p1]"
    and "filter (\<lambda>p. user_id p = b) (profiles_tbl db) = [p2]"
  shows "stats_loop hours [r1, r2] db
       = db\<lparr>profiles_tbl :=
             map (\<lambda>p. if user_id p = a \<or> user_id p = b
                       then p\<lparr>tasks_completed := tasks_completed p + 1,
                              total_volunteer_hours := total_volunteer_hours p + hours\<rparr>
                       else p) (profiles_tbl db)\<rparr>"
proof -
  let ?db1 = "update_profiles a
            (\<lambda>p. p\<lparr>tasks_completed := tasks_completed p1 + 1,
                   total_volunteer_hours := total_volunteer_hours p1 + hours\<rparr>) db"
  have p1: "profiles_tbl ?db1 = map (\<lambda>p. if user_id p = a
                   then p\<lparr>tasks_completed := tasks_completed p + 1,
                          total_volunteer_hours := total_volunteer_hours p + hours\<rparr>
                   else p) (profiles_tbl db)"
    by (rule update_profiles_own [OF assms(4)])
  have fb: "filter (\<lambda>p. user_id p = b) (profiles_tbl ?db1) = [p2]"
    unfolding p1 by (simp add: filter_other_user [OF assms(1)] assms(5))
  have step1: "stats_loop hours [r1, r2] db = stats_loop hours [r2] ?db1"
    using assms(2,4) by (simp add: maybeSingle_def js_or_zero)
  let ?db2 = "update_profiles b
            (\<lambda>p. p\<lparr>tasks_completed := tasks_completed p2 + 1,
                   total_volunteer_hours := total_volunteer_hours p2 + hours\<rparr>) ?db1"
  have step2: "stats_loop hours [r2] ?db1 = ?db2"
    using assms(3) fb by (simp add: maybeSingle_def js_or_zero)
  have p2: "profiles_tbl ?db2 = map (\<lambda>p. if user_id p = b
                   then p\<lparr>tasks_completed := tasks_completed p + 1,
                          total_volunteer_hours := total_volunteer_hours p + hours\<rparr>
                   else p) (profiles_tbl ?db1)"
    by (rule update_profiles_own [OF fb])
  have "profiles_tbl ?db2 = map (\<lambda>p. if user_id p = a \<or> user_id p = b
                       then p\<lparr>tasks_completed := tasks_completed p + 1,
                              total_volunteer_hours := total_volunteer_hours p + hours\<rparr>
                       else p) (profiles_tbl db)"
    unfolding p2 p1 using assms(1) by (auto intro!: map_cong)
  moreover have "tasks_tbl ?db2 = tasks_tbl db" "task_volunteers_tbl ?db2 = task_volunteers_tbl db"
    by (simp_all add: update_profiles_def)
  ultimately have "?db2 = db\<lparr>profiles_tbl :=
             map (\<lambda>p. if user_id p = a \<or> user_id p = b
                       then p\<lparr>tasks_completed := tasks_completed p + 1,
                              total_volunteer_hours := total_volunteer_hours p + hours\<rparr>
                       else p) (profiles_tbl db)\<rparr>"
    by (simp add: update_profiles_def)
  with step1 step2 show ?thesis by simp
qed

lemma two_filtered_distinct:
  assumes "distinct (map f xs)" "filter P xs = [x, y]"
  shows "f x \<noteq> f y"
proof -
  have "distinct (map f (filter P xs))"
    using assms(1) by (rule distinct_map_filter)
  with assms(2) show ?thesis by simp
qed

text \<open>
  C2 (as amended). The source holds two copies of \<^verbatim>\<open>completeTask\<close>. For the copy
  with the hours table (\<open>completeTask\<close>): the task is in the hook's loaded task list
  with time_needed 1hour, exactly two rows of the task are accepted, and each of the two
  volunteers has one profile row. Then a successful call sets the task's status to
  completed and completed_at to the current time, and adds exactly 1 to tasks_completed
  and exactly 1 to total_volunteer_hours of each of the two volunteers' profiles and of
  no other profile; the hours come from the table 15min 0.25, 30min 0.5, 1hour 1,
  2hours 2, half_day 4. The copy of \<^verbatim>\<open>src/hooks/useTasks.tsx\<close>
  (\<open>completeTask_plain\<close>) succeeds on the same input, sets the task's status and
  completed_at in the same way and changes no profile.
\<close>

theorem completeTask_spec:
  assumes "find (\<lambda>t. tid t = taskId) (tasks h) = Some task"
    and "time_needed task = t1hour"
    and "volunteers_unique db"
    and "filter (\<lambda>r. task_id r = taskId \<and> v_status r = ''accepted'') (task_volunteers_tbl db) = [r1, r2]"
    and "filter (\<lambda>p. user_id p = volunteer_id r1) (profiles_tbl db) = [p1]"
    and "filter (\<lambda>p. user_id p = volunteer_id r2) (profiles_tbl db) = [p2]"
    and "completeTask auth h taskId now db = (None, db', h')"
  shows "tasks_tbl db' =
           map (\<lambda>t. if tid t = taskId then t\<lparr>status := completed, completed_at := Some now\<rparr> else t)
             (tasks_tbl db)
       \<and> profiles_tbl db' =
           map (\<lambda>p. if user_id p = volunteer_id r1 \<or> user_id p = volunteer_id r2
                     then p\<lparr>tasks_completed := tasks_completed p + 1,
                            total_volunteer_hours := total_volunteer_hours p + 1\<rparr>
                     else p) (profiles_tbl db)
       \<and> volunteer_id r1 \<noteq> volunteer_id r2
       \<and> task_volunteers_tbl db' = task_volunteers_tbl db
       \<and> hoursMap t15min = 0.25 \<and> hoursMap t30min = 0.5 \<and> hoursMap t1hour = 1
       \<and> hoursMap t2hours = 2 \<and> hoursMap half_day = 4
       \<and> fst (completeTask_plain auth h taskId now db) = None
       \<and> tasks_tbl (fst (snd (completeTask_plain auth h taskId now db))) =
           map (\<lambda>t. if tid t = taskId then t\<lparr>status := completed, completed_at := Some now\<rparr> else t)
             (tasks_tbl db)
       \<and> profiles_tbl (fst (snd (completeTask_plain auth h taskId now db))) = profiles_tbl db"
proof -
  let ?db1 = "update_tasks taskId (\<lambda>t. t\<lparr>status := completed, completed_at := Some now\<rparr>) db"
  have rows1: "task_volunteers_tbl ?db1 = task_volunteers_tbl db"
    and prof1: "profiles_tbl ?db1 = profiles_tbl db"
    by (simp_all add: update_tasks_def)
  have "r1 \<in> set (filter (\<lambda>r. task_id r = taskId \<and> v_status r = ''accepted'') (task_volunteers_tbl db))"
    "r2 \<in> set (filter (\<lambda>r. task_id r = taskId \<and> v_status r = ''accepted'') (task_volunteers_tbl db))"
    unfolding assms(4) by simp_all
  then have tk: "task_id r1 = taskId" "task_id r2 = taskId" by simp_all
  have "(task_id r1, volunteer_id r1) \<noteq> (task_id r2, volunteer_id r2)"
    using two_filtered_distinct [OF assms(3) [unfolded volunteers_unique_def] assms(4)] .
  with tk have ne: "volunteer_id r1 \<noteq> volunteer_id r2" by simp
  have loop: "stats_loop 1 [r1, r2] ?db1
       = ?db1\<lparr>profiles_tbl :=
             map (\<lambda>p. if user_id p = volunteer_id r1 \<or> user_id p = volunteer_id r2
                       then p\<lparr>tasks_completed := tasks_completed p + 1,
                              total_volunteer_hours := total_volunteer_hours p + 1\<rparr>
                       else p) (profiles_tbl ?db1)\<rparr>"
    by (rule stats_loop_two [OF ne refl refl]) (simp_all add: prof1 assms(5,6))
  have hrs: "js_or (hoursMap t1hour) 0.5 = 1"
    by (simp add: js_or_def hoursMap_def)
  have db': "db' = stats_loop 1 [r1, r2] ?db1"
    using assms(7) assms(1,2,4) hrs
    by (simp add: completeTask_def Let_def rows1 del: stats_loop.simps)
  have plain: "fst (completeTask_plain auth h taskId now db) = None"
    "tasks_tbl (fst (snd (completeTask_plain auth h taskId now db))) =
       map (\<lambda>t. if tid t = taskId then t\<lparr>status := completed, completed_at := Some now\<rparr> else t)
         (tasks_tbl db)"
    "profiles_tbl (fst (snd (completeTask_plain auth h taskId now db))) = profiles_tbl db"
    by (simp_all add: completeTask_plain_def update_tasks_def Let_def)
  show ?thesis
    unfolding db' loop using ne plain
    by (simp add: update_tasks_def hoursMap_def)
qed

text \<open>
  C2 as stated fails for a task that the hook's list does not hold (the list holds open
  and in_progress tasks only): the hours fall back to 0.5. Here the task is already
  completed, has time_needed 1hour and two accepted volunteers; the call succeeds and
  each volunteer's total goes from 0 to 0.5.
\<close>

theorem completeTask_not_loaded_counterexample:
  "tasks (fetchTasks (auth_of ''u0'') (two_accepted_db completed) tasks_hook0) = []
   \<and> fst (completeTask (auth_of ''u0'')
            (fetchTasks (auth_of ''u0'') (two_accepted_db completed) tasks_hook0) ''t1'' 7
            (two_accepted_db completed)) = None
   \<and> map total_volunteer_hours
        (profiles_tbl (two_accepted_db completed)) = [0, 0]
   \<and> map total_volunteer_hours
        (profiles_tbl (fst (snd (completeTask (auth_of ''u0'')
            (fetchTasks (auth_of ''u0'') (two_accepted_db completed) tasks_hook0) ''t1'' 7
            (two_accepted_db completed))))) = [1 / 2, 1 / 2]"
  by (simp add: completeTask_def fetchTasks_def two_accepted_db_def tasks_hook0_def auth_of_def
      task_distance_def sample_task_def sample_profile_def accepted_row_def update_tasks_def
      update_profiles_def maybeSingle_def js_or_def Let_def)

text \<open>
  The copy of \<^verbatim>\<open>completeTask\<close> without the statistics loop performs the first half
  only: the task row is completed and the profiles stay as they are.
\<close>

lemma completeTask_plain_effect:
  "completeTask_plain auth h taskId now db = (err, db', h') \<Longrightarrow>
     err = None
     \<and> tasks_tbl db' =
           map (\<lambda>t. if tid t = taskId then t\<lparr>status := completed, completed_at := Some now\<rparr> else t)
             (tasks_tbl db)
     \<and> profiles_tbl db' = profiles_tbl db
     \<and> task_volunteers_tbl db' = task_volunteers_tbl db"
  by (auto simp: completeTask_plain_def update_tasks_def Let_def)

theorem completeTask_spec_witness:
  "fst (completeTask (auth_of ''u0'')
          (fetchTasks (auth_of ''u0'') (two_accepted_db in_progress) tasks_hook0) ''t1'' 7
          (two_accepted_db in_progress)) = None
   \<and> map status (tasks_tbl (fst (snd (completeTask (auth_of ''u0'')
          (fetchTasks (auth_of ''u0'') (two_accepted_db in_progress) tasks_hook0) ''t1'' 7
          (two_accepted_db in_progress))))) = [completed]
   \<and> map completed_at (tasks_tbl (fst (snd (completeTask (auth_of ''u0'')
          (fetchTasks (auth_of ''u0'') (two_accepted_db in_progress) tasks_hook0) ''t1'' 7
          (two_accepted_db in_progress))))) = [Some 7]
   \<and> map tasks_completed (profiles_tbl (two_accepted_db in_progress)) = [0, 0]
   \<and> map tasks_completed (profiles_tbl (fst (snd (completeTask (auth_of ''u0'')
          (fetchTasks (auth_of ''u0'') (two_accepted_db in_progress) tasks_hook0) ''t1'' 7
          (two_accepted_db in_progress))))) = [1, 1]
   \<and> map total_volunteer_hours (profiles_tbl (fst (snd (completeTask (auth_of ''u0'')
          (fetchTasks (auth_of ''u0'') (two_accepted_db in_progress) tasks_hook0) ''t1'' 7
          (two_accepted_db in_progress))))) = [1, 1]
   \<and> map tasks_completed (profiles_tbl (fst (snd (completeTask_plain (auth_of ''u0'')
          (fetchTasks (auth_of ''u0'') (two_accepted_db in_progress) tasks_hook0) ''t1'' 7
          (two_accepted_db in_progress))))) = [0, 0]
   \<and> map total_volunteer_hours (profiles_tbl (fst (snd (completeTask_plain (auth_of ''u0'')
          (fetchTasks (auth_of ''u0'') (two_accepted_db in_progress) tasks_hook0) ''t1'' 7
          (two_accepted_db in_progress))))) = [0, 0]"
proof -
  let ?db = "two_accepted_db in_progress"
  let ?h = "fetchTasks (auth_of ''u0'') ?db tasks_hook0"
  let ?task = "sample_task\<lparr>status := in_progress, max_volunteers := 2, current_volunteers := 2\<rparr>"
  let ?res = "completeTask (auth_of ''u0'') ?h ''t1'' 7 ?db"
  have ld: "tasks ?h = [?task]"
    by (simp add: fetchTasks_def two_accepted_db_def tasks_hook0_def auth_of_def
        task_distance_def sample_task_def)
  have h1: "find (\<lambda>t. tid t = ''t1'') (tasks ?h) = Some ?task"
    unfolding ld by (simp add: sample_task_def)
  have h2: "time_needed ?task = t1hour"
    by (simp add: sample_task_def)
  have h3: "volunteers_unique ?db"
    by (simp add: volunteers_unique_def two_accepted_db_def accepted_row_def)
  have h4: "filter (\<lambda>r. task_id r = ''t1'' \<and> v_status r = ''accepted'') (task_volunteers_tbl ?db)
              = [accepted_row ''u1'', accepted_row ''u2'']"
    by (simp add: two_accepted_db_def accepted_row_def)
  have h5: "filter (\<lambda>p. user_id p = volunteer_id (accepted_row ''u1'')) (profiles_tbl ?db)
              = [sample_profile]"
    by (simp add: two_accepted_db_def accepted_row_def sample_profile_def)
  have h6: "filter (\<lambda>p. user_id p = volunteer_id (accepted_row ''u2'')) (profiles_tbl ?db)
              = [sample_profile\<lparr>user_id := ''u2''\<rparr>]"
    by (simp add: two_accepted_db_def accepted_row_def sample_profile_def)
  have ok: "fst ?res = None"
    by (simp add: completeTask_def Let_def)
  then have eq: "?res = (None, fst (snd ?res), snd (snd ?res))"
    by (metis prod.collapse)
  note spec = completeTask_spec [OF h1 h2 h3 h4 h5 h6 eq]
  have t: "tasks_tbl (fst (snd ?res)) =
           map (\<lambda>t. if tid t = ''t1'' then t\<lparr>status := completed, completed_at := Some 7\<rparr> else t)
             (tasks_tbl ?db)"
    using spec by blast
  have p: "profiles_tbl (fst (snd ?res)) =
           map (\<lambda>p. if user_id p = volunteer_id (accepted_row ''u1'')
                        \<or> user_id p = volunteer_id (accepted_row ''u2'')
                     then p\<lparr>tasks_completed := tasks_completed p + 1,
                            total_volunteer_hours := total_volunteer_hours p + 1\<rparr>
                     else p) (profiles_tbl ?db)"
    using spec by blast
  have a: "map status (tasks_tbl (fst (snd ?res))) = [completed]"
    "map completed_at (tasks_tbl (fst (snd ?res))) = [Some 7]"
    unfolding t by (simp_all add: two_accepted_db_def sample_task_def)
  have b: "map tasks_completed (profiles_tbl (fst (snd ?res))) = [1, 1]"
    "map total_volunteer_hours (profiles_tbl (fst (snd ?res))) = [1, 1]"
    unfolding p by (simp_all add: two_accepted_db_def sample_profile_def accepted_row_def)
  have c: "map tasks_completed (profiles_tbl ?db) = [0, 0]"
    "map total_volunteer_hours (profiles_tbl ?db) = [0, 0]"
    by (simp_all add: two_accepted_db_def sample_profile_def)
  have pl: "profiles_tbl (fst (snd (completeTask_plain (auth_of ''u0'') ?h ''t1'' 7 ?db)))
              = profiles_tbl ?db"
    using spec by blast
  have d: "map tasks_completed
             (profiles_tbl (fst (snd (completeTask_plain (auth_of ''u0'') ?h ''t1'' 7 ?db)))) = [0, 0]"
    "map total_volunteer_hours
             (profiles_tbl (fst (snd (completeTask_plain (auth_of ''u0'') ?h ''t1'' 7 ?db)))) = [0, 0]"
    unfolding pl by (rule c)+
  from ok a b c d show ?thesis by simp
qed


section \<open>Properties of sequences of operations\<close>

lemmas eval_defs =
  createTask_def acceptTask_def completeTask_def offerToHelp_def acceptVolunteer_def
  rejectVolunteer_def withdrawOffer_def fetchTasks_def fetchVolunteers_def insert_task_def
  insert_task_volunteer_def update_tasks_def update_task_volunteers_def
  delete_task_volunteers_def update_profiles_def maybeSingle_def js_or_def task_distance_def
  tasks_hook0_def volunteers_hook0_def auth_of_def empty_db_def sample_data_def Let_def

text \<open>
  C4. The invariant \<open>current_volunteers \<le> max_volunteers\<close> is broken by accepting two
  pending volunteers on a task created with max_volunteers 1: the second
  \<^verbatim>\<open>acceptVolunteer\<close> writes the count 2.
\<close>

theorem acceptVolunteer_exceeds_max:
  "map (\<lambda>t. (status t, current_volunteers t, max_volunteers t))
     (tasks_tbl (run over_max_scenario empty_db)) = [(in_progress, 2, 1)]
   \<and> task_volunteers_tbl (run over_max_scenario empty_db) = [accepted_row ''u1'', accepted_row ''u2'']"
  by (simp add: over_max_scenario_def eval_defs accepted_row_def)

text \<open>
  C6. The status of a task does not only move forward: after create, offer and complete
  the task is completed with completed_at set, and accepting the still pending volunteer
  writes in_progress over it while completed_at stays set. \<^verbatim>\<open>acceptVolunteer\<close> writes
  the status without reading the present one.
\<close>

theorem acceptVolunteer_reopens_completed:
  "map (\<lambda>t. (status t, completed_at t)) (tasks_tbl (run reopen_scenario empty_db))
     = [(completed, Some 5)]
   \<and> map (\<lambda>t. (status t, completed_at t))
       (tasks_tbl (run (reopen_scenario @ [AcceptVolunteer (auth_of ''u0'') ''t1'' ''u1''])
                     empty_db))
     = [(in_progress, Some 5)]"
  by (simp add: reopen_scenario_def eval_defs)

text \<open>
  A second backward move, through a stale list: the hook of \<^verbatim>\<open>acceptTask\<close> loaded the
  task while it was open with no volunteer; meanwhile a volunteer was accepted and the
  task is in_progress. The call writes the status it read, open, back to the table.
\<close>

lemma acceptTask_stale_list_reverts:
  "map status
     (tasks_tbl (fst (snd (acceptTask (auth_of ''u2'')
        \<lparr>tasks = [sample_task\<lparr>max_volunteers := 3\<rparr>]\<rparr> ''t1''
        \<lparr>tasks_tbl = [sample_task\<lparr>max_volunteers := 3, current_volunteers := 1,
                                   status := in_progress\<rparr>],
         task_volunteers_tbl = [accepted_row ''u1''], profiles_tbl = []\<rparr>))))
   = [open_status]"
  by (simp add: eval_defs sample_task_def accepted_row_def)

end
